theory Spec2Isabelle
  imports Main "HOL-Library.Sublist"
begin

section \<open>The Gandi DNS01 solver of main.go\<close>

text \<open>
  The solver of \<^verbatim>\<open>main.go\<close> has two operations, \<^verbatim>\<open>Present\<close> and \<^verbatim>\<open>CleanUp\<close>,
  one helper that resolves the credentials (\<^verbatim>\<open>getGandiClient\<close>) and one that
  splits the challenge name (\<^verbatim>\<open>getDomainAndChallengeFQDN\<close>). Everything else
  it touches lives outside the repository: the JSON decoder, the Kubernetes secret
  store, and the LiveDNS client of go-gandi. Those collaborators are parameters of
  the model; the four functions of the repository are translated line by line.
  The \<^verbatim>\<open>klog\<close> lines only write to the log and are left out.
\<close>

subsection \<open>Strings\<close>

text \<open>
  Go strings are byte sequences, as \<^typ>\<open>string\<close> is. \<^verbatim>\<open>strings.HasSuffix\<close> is
  \<^verbatim>\<open>len(s) >= len(suffix) && s[len(s)-len(suffix):] == suffix\<close>, and
  \<^verbatim>\<open>strings.TrimSuffix\<close> cuts the suffix when it is there and returns \<^verbatim>\<open>s\<close>
  unchanged otherwise.
\<close>

definition HasSuffix :: "string \<Rightarrow> string \<Rightarrow> bool" where
  "HasSuffix s suf \<longleftrightarrow> length suf \<le> length s \<and> drop (length s - length suf) s = suf"

definition TrimSuffix :: "string \<Rightarrow> string \<Rightarrow> string" where
  "TrimSuffix s suf = (if HasSuffix s suf then take (length s - length suf) s else s)"

text \<open>
  The verb \<^verbatim>\<open>%d\<close> of \<^verbatim>\<open>fmt\<close> prints an integer in decimal, with a minus sign
  when it is negative.
\<close>

fun FormatNat :: "nat \<Rightarrow> string" where
  "FormatNat n =
     (if n < 10 then [''0123456789'' ! n]
      else FormatNat (n div 10) @ [''0123456789'' ! (n mod 10)])"

declare FormatNat.simps [simp del]

definition fmt_d :: "int \<Rightarrow> string" where
  "fmt_d i = (if i < 0 then ''-'' @ FormatNat (nat (- i)) else FormatNat (nat i))"

text \<open>
  Reading a decimal numeral back, to check the rendering against: the digits are
  the bytes 48 to 57.
\<close>

definition ParseNat :: "string \<Rightarrow> nat" where
  "ParseNat s = foldl (\<lambda>a ch. 10 * a + (of_char ch - 48)) 0 s"

text \<open>The two punctuation bytes of the messages that are not written as literals.\<close>

definition dquote :: string where
  "dquote = [CHR 0x22]"

definition backquote :: string where
  "backquote = [CHR 0x60]"

subsection \<open>Data\<close>

text \<open>
  \<^verbatim>\<open>v1alpha1.ChallengeRequest\<close>, with the fields the solver reads. \<^verbatim>\<open>Config\<close>
  is a pointer to \<^verbatim>\<open>extapi.JSON\<close>: \<open>None\<close> is the nil pointer, \<open>Some raw\<close> a
  payload with the bytes \<^verbatim>\<open>Raw\<close>.
\<close>

record ChallengeRequest =
  ResourceNamespace :: string
  ResolvedZone :: string
  ResolvedFQDN :: string
  Key :: string
  Config :: "string option"

text \<open>
  \<^verbatim>\<open>gandiDNSProviderConfig\<close>: its one field \<^verbatim>\<open>PATSecretRef\<close> is a
  \<^verbatim>\<open>SecretKeySelector\<close>, of which the code reads
  \<^verbatim>\<open>PATSecretRef.LocalObjectReference.Name\<close> and \<^verbatim>\<open>PATSecretRef.Key\<close>.
\<close>

record gandiDNSProviderConfig =
  PATSecretRef_Name :: string
  PATSecretRef_Key :: string

text \<open>The record set and the response of the LiveDNS client.\<close>

record DomainRecord =
  RrsetType :: string
  RrsetTTL :: int
  RrsetName :: string
  RrsetValues :: "string list"

record StandardResponse =
  Code :: int

text \<open>
  A Go call ends with an \<^verbatim>\<open>error\<close> value, which carries a message, or with a
  run-time panic. The only panic within reach of the solver is the use of the
  Kubernetes client before \<^verbatim>\<open>Initialize\<close> has stored one.
\<close>

datatype failure = Err string | NilDereference

text \<open>
  The three methods of \<^verbatim>\<open>livedns.LiveDNS\<close> that the solver calls, over a
  provider state \<open>'p\<close>. A call that returns a Go \<^verbatim>\<open>error\<close> returns its message
  on the left.
\<close>

record 'p LiveDNS =
  GetDomainRecordByNameAndType ::
    "string \<Rightarrow> string \<Rightarrow> string \<Rightarrow> 'p \<Rightarrow> string + DomainRecord"
  UpdateDomainRecordByNameAndType ::
    "string \<Rightarrow> string \<Rightarrow> string \<Rightarrow> int \<Rightarrow> string list \<Rightarrow> 'p
      \<Rightarrow> (string + StandardResponse) \<times> 'p"
  DeleteDomainRecord ::
    "string \<Rightarrow> string \<Rightarrow> string \<Rightarrow> 'p \<Rightarrow> string option \<times> 'p"

text \<open>
  The secret store: \<^verbatim>\<open>CoreV1().Secrets(namespace).Get(ctx, name, opts)\<close> returns
  an error message or the secret's \<^verbatim>\<open>Data\<close> map. The solver holds a pointer to
  it, nil until \<^verbatim>\<open>Initialize\<close> has run.
\<close>

type_synonym Clientset = "string \<Rightarrow> string \<Rightarrow> string + (string \<rightharpoonup> string)"

record gandiDNSProviderSolver =
  client :: "Clientset option"

text \<open>
  What the solver takes from libraries: \<^verbatim>\<open>json.Unmarshal\<close> into a
  \<^verbatim>\<open>gandiDNSProviderConfig\<close>, the quoting of \<^verbatim>\<open>%q\<close>, the text \<^verbatim>\<open>%v\<close>
  prints for a nil \<^verbatim>\<open>*extapi.JSON\<close>, and \<^verbatim>\<open>gandi.NewLiveDNSClient\<close> applied
  to a configuration that holds the personal access token.
\<close>

record 'p externals =
  Unmarshal :: "string \<Rightarrow> string + gandiDNSProviderConfig"
  Quote :: "string \<Rightarrow> string"
  FmtNilJSON :: string
  NewLiveDNSClient :: "string \<Rightarrow> 'p LiveDNS"

text \<open>
  The calls that leave the process are recorded in the order they are made, a read
  together with what it returned.
\<close>

datatype event =
    SecretGet string string
  | RecordRead string string string "string + DomainRecord"
  | RecordUpdate string string string int "string list"
  | RecordDelete string string string

record 'p world =
  provider :: 'p
  trace :: "event list"

fun is_mutation :: "event \<Rightarrow> bool" where
  "is_mutation (RecordUpdate d n t ttl vs) = True"
| "is_mutation (RecordDelete d n t) = True"
| "is_mutation e = False"

definition callGet ::
  "'p LiveDNS \<Rightarrow> string \<Rightarrow> string \<Rightarrow> string \<Rightarrow> 'p world \<Rightarrow> (string + DomainRecord) \<times> 'p world" where
  "callGet gandiClient domain name ty w =
     (let r = GetDomainRecordByNameAndType gandiClient domain name ty (provider w)
      in (r, w\<lparr>trace := trace w @ [RecordRead domain name ty r]\<rparr>))"

definition callUpdate ::
  "'p LiveDNS \<Rightarrow> string \<Rightarrow> string \<Rightarrow> string \<Rightarrow> int \<Rightarrow> string list \<Rightarrow> 'p world
    \<Rightarrow> (string + StandardResponse) \<times> 'p world" where
  "callUpdate gandiClient domain name ty ttl vals w =
     (case UpdateDomainRecordByNameAndType gandiClient domain name ty ttl vals (provider w) of
        (r, p') \<Rightarrow>
          (r, \<lparr>provider = p', trace = trace w @ [RecordUpdate domain name ty ttl vals]\<rparr>))"

definition callDelete ::
  "'p LiveDNS \<Rightarrow> string \<Rightarrow> string \<Rightarrow> string \<Rightarrow> 'p world \<Rightarrow> string option \<times> 'p world" where
  "callDelete gandiClient domain name ty w =
     (case DeleteDomainRecord gandiClient domain name ty (provider w) of
        (r, p') \<Rightarrow> (r, \<lparr>provider = p', trace = trace w @ [RecordDelete domain name ty]\<rparr>))"

subsection \<open>The solver\<close>

definition GandiMinTtl :: int where
  "GandiMinTtl = 300"

definition getDomainAndChallengeFQDN :: "ChallengeRequest \<Rightarrow> string \<times> string" where
  "getDomainAndChallengeFQDN ch =
     (let entry = TrimSuffix (ResolvedFQDN ch) (ResolvedZone ch);
          entry = TrimSuffix entry ''.'';
          domain = TrimSuffix (ResolvedZone ch) ''.''
      in (entry, domain))"

definition getGandiClient ::
  "'p externals \<Rightarrow> gandiDNSProviderSolver \<Rightarrow> string option \<Rightarrow> string \<Rightarrow> 'p world
    \<Rightarrow> (failure + 'p LiveDNS) \<times> 'p world" where
  "getGandiClient ext c cfgJSON namespace w =
     (case cfgJSON of
        None \<Rightarrow> (Inl (Err (''no configuration provided: '' @ FmtNilJSON ext)), w)
      | Some raw \<Rightarrow>
          (case Unmarshal ext raw of
             Inl err \<Rightarrow> (Inl (Err (''error decoding solver config: '' @ err)), w)
           | Inr cfg \<Rightarrow>
               (let secretName = PATSecretRef_Name cfg in
                case client c of
                  None \<Rightarrow> (Inl NilDereference, w)
                | Some clientset \<Rightarrow>
                    (let w1 = w\<lparr>trace := trace w @ [SecretGet namespace secretName]\<rparr> in
                     case clientset namespace secretName of
                       Inl err \<Rightarrow>
                         (Inl (Err (''unable to get secret '' @ backquote @ secretName
                                     @ backquote @ ''; '' @ err)), w1)
                     | Inr secData \<Rightarrow>
                         (case secData (PATSecretRef_Key cfg) of
                            None \<Rightarrow>
                              (Inl (Err (''key '' @ Quote ext (PATSecretRef_Key cfg)
                                          @ '' not found in secret '' @ dquote
                                          @ PATSecretRef_Name cfg @ ''/'' @ namespace
                                          @ dquote)), w1)
                          | Some secBytes \<Rightarrow>
                              (Inr (NewLiveDNSClient ext secBytes), w1))))))"

definition Present ::
  "'p externals \<Rightarrow> gandiDNSProviderSolver \<Rightarrow> ChallengeRequest \<Rightarrow> 'p world
    \<Rightarrow> failure option \<times> 'p world" where
  "Present ext c ch w =
     (case getGandiClient ext c (Config ch) (ResourceNamespace ch) w of
        (Inl NilDereference, w1) \<Rightarrow> (Some NilDereference, w1)
      | (Inl (Err err), w1) \<Rightarrow> (Some (Err (''unable to get Gandi client: '' @ err)), w1)
      | (Inr gandiClient, w1) \<Rightarrow>
          (case getDomainAndChallengeFQDN ch of
             (challengeFQDN, domain) \<Rightarrow>
               (case callGet gandiClient domain challengeFQDN ''TXT'' w1 of
                  (Inl err, w2) \<Rightarrow>
                    (Some (Err (''present: pre: unable to check TXT record: '' @ err)), w2)
                | (Inr domainRecord, w2) \<Rightarrow>
                    (let recordVal = [Key ch] in
                     if RrsetName domainRecord \<noteq> '''' \<and> length (RrsetValues domainRecord) > 0
                     then
                       (case callUpdate gandiClient domain challengeFQDN ''TXT''
                               GandiMinTtl recordVal w2 of
                          (Inl err, w3) \<Rightarrow>
                            (Some (Err (''unable to change TXT record: '' @ err)), w3)
                        | (Inr resp, w3) \<Rightarrow>
                            if Code resp \<noteq> 200
                            then (Some (Err (''got code '' @ fmt_d (Code resp)
                                    @ '' while trying to change TXT record: '' @ domain)), w3)
                            else (None, w3))
                     else
                       (case callUpdate gandiClient domain challengeFQDN ''TXT''
                               GandiMinTtl recordVal w2 of
                          (Inl err, w3) \<Rightarrow>
                            (Some (Err (''unable to create TXT record: '' @ err)), w3)
                        | (Inr resp, w3) \<Rightarrow>
                            if Code resp \<noteq> 200
                            then (Some (Err (''got code '' @ fmt_d (Code resp)
                                    @ '' while trying to create TXT record: '' @ domain)), w3)
                            else (None, w3))))))"

definition CleanUp ::
  "'p externals \<Rightarrow> gandiDNSProviderSolver \<Rightarrow> ChallengeRequest \<Rightarrow> 'p world
    \<Rightarrow> failure option \<times> 'p world" where
  "CleanUp ext c ch w =
     (case getGandiClient ext c (Config ch) (ResourceNamespace ch) w of
        (Inl NilDereference, w1) \<Rightarrow> (Some NilDereference, w1)
      | (Inl (Err err), w1) \<Rightarrow> (Some (Err (''unable to get Gandi client: '' @ err)), w1)
      | (Inr gandiClient, w1) \<Rightarrow>
          (case getDomainAndChallengeFQDN ch of
             (challengeFQDN, domain) \<Rightarrow>
               (case callGet gandiClient domain challengeFQDN ''TXT'' w1 of
                  (Inl err, w2) \<Rightarrow>
                    (Some (Err (''cleanup: pre: unable to check TXT record: '' @ err)), w2)
                | (Inr domainRecord, w2) \<Rightarrow>
                    if RrsetName domainRecord \<noteq> '''' \<and> length (RrsetValues domainRecord) > 0
                    then
                      (case callDelete gandiClient domain challengeFQDN ''TXT'' w2 of
                         (Some err, w3) \<Rightarrow>
                           (Some (Err (''unable to remove TXT record: '' @ err)), w3)
                       | (None, w3) \<Rightarrow> (None, w3))
                    else (None, w2))))"

text \<open>The calls one invocation adds to the trace it started from.\<close>

definition Present_issued ::
  "'p externals \<Rightarrow> gandiDNSProviderSolver \<Rightarrow> ChallengeRequest \<Rightarrow> 'p world \<Rightarrow> event list" where
  "Present_issued ext c ch w = drop (length (trace w)) (trace (snd (Present ext c ch w)))"

definition CleanUp_issued ::
  "'p externals \<Rightarrow> gandiDNSProviderSolver \<Rightarrow> ChallengeRequest \<Rightarrow> 'p world \<Rightarrow> event list" where
  "CleanUp_issued ext c ch w = drop (length (trace w)) (trace (snd (CleanUp ext c ch w)))"



subsection \<open>A reference provider\<close>

text \<open>
  Modelled from the spec: the record store behind the LiveDNS client, which is the
  provider's HTTP service and no part of the repository. The specification describes
  it in its sections on the external interfaces and on the testable properties:
  one value set per (zone, name, type); a read of a name that has no record returns
  an empty record and no error; the update call is an upsert that creates the record
  or replaces its values and TTL and answers with code 200; the delete call removes
  the record set. The store is a list of (zone, record set) pairs, so that a
  duplicate entry at a key would be visible if an operation produced one.
\<close>

type_synonym rrstore = "(string \<times> DomainRecord) list"

definition at_key :: "string \<Rightarrow> string \<Rightarrow> string \<Rightarrow> string \<times> DomainRecord \<Rightarrow> bool" where
  "at_key d n t e \<longleftrightarrow> fst e = d \<and> RrsetName (snd e) = n \<and> RrsetType (snd e) = t"

definition store_Get :: "string \<Rightarrow> string \<Rightarrow> string \<Rightarrow> rrstore \<Rightarrow> string + DomainRecord" where
  "store_Get d n t s =
     (case filter (at_key d n t) s of
        [] \<Rightarrow> Inr \<lparr>RrsetType = '''', RrsetTTL = 0, RrsetName = '''', RrsetValues = []\<rparr>
      | e # es \<Rightarrow> Inr (snd e))"

definition store_Update ::
  "string \<Rightarrow> string \<Rightarrow> string \<Rightarrow> int \<Rightarrow> string list \<Rightarrow> rrstore
    \<Rightarrow> (string + StandardResponse) \<times> rrstore" where
  "store_Update d n t ttl vs s =
     (Inr \<lparr>Code = 200\<rparr>,
      filter (\<lambda>e. \<not> at_key d n t e) s
        @ [(d, \<lparr>RrsetType = t, RrsetTTL = ttl, RrsetName = n, RrsetValues = vs\<rparr>)])"

definition store_Delete ::
  "string \<Rightarrow> string \<Rightarrow> string \<Rightarrow> rrstore \<Rightarrow> string option \<times> rrstore" where
  "store_Delete d n t s = (None, filter (\<lambda>e. \<not> at_key d n t e) s)"

definition store_client :: "rrstore LiveDNS" where
  "store_client =
     \<lparr>GetDomainRecordByNameAndType = store_Get,
      UpdateDomainRecordByNameAndType = store_Update,
      DeleteDomainRecord = store_Delete\<rparr>"


subsection \<open>The request of the specification's end-to-end scenario\<close>

text \<open>
  The scenario of the specification: zone \<^verbatim>\<open>example.com.\<close>, name
  \<^verbatim>\<open>_acme-challenge.example.com.\<close>, key \<^verbatim>\<open>abc123\<close>, namespace \<^verbatim>\<open>ns1\<close>, and a
  configuration that points at the key \<^verbatim>\<open>token\<close> of the secret \<^verbatim>\<open>gandi-creds\<close>.
  The decoder of the scenario knows this one payload and rejects every other; its
  secret store holds this one secret.
\<close>

definition demo_raw :: string where
  "demo_raw = ''{'' @ dquote @ ''PATSecretRef'' @ dquote @ '':{'' @ dquote @ ''name'' @ dquote
     @ '':'' @ dquote @ ''gandi-creds'' @ dquote @ '','' @ dquote @ ''key'' @ dquote @ '':''
     @ dquote @ ''token'' @ dquote @ ''}}''"

definition demo_request :: ChallengeRequest where
  "demo_request =
     \<lparr>ResourceNamespace = ''ns1'', ResolvedZone = ''example.com.'',
      ResolvedFQDN = ''_acme-challenge.example.com.'', Key = ''abc123'',
      Config = Some demo_raw\<rparr>"

definition demo_Unmarshal :: "string \<Rightarrow> string + gandiDNSProviderConfig" where
  "demo_Unmarshal raw =
     (if raw = demo_raw
      then Inr \<lparr>PATSecretRef_Name = ''gandi-creds'', PATSecretRef_Key = ''token''\<rparr>
      else Inl ''invalid character'')"

definition demo_ext :: "rrstore LiveDNS \<Rightarrow> rrstore externals" where
  "demo_ext gc =
     \<lparr>Unmarshal = demo_Unmarshal, Quote = (\<lambda>s. dquote @ s @ dquote),
      FmtNilJSON = ''<nil>'', NewLiveDNSClient = (\<lambda>pat. gc)\<rparr>"

definition demo_secrets :: Clientset where
  "demo_secrets ns nm =
     (if ns = ''ns1'' \<and> nm = ''gandi-creds'' then Inr [''token'' \<mapsto> ''pat-0000'']
      else Inl ''secret not found'')"

definition keyless_secrets :: Clientset where
  "keyless_secrets ns nm =
     (if ns = ''ns1'' \<and> nm = ''gandi-creds'' then Inr [''other'' \<mapsto> ''pat-0000'']
      else Inl ''secret not found'')"

definition empty_secrets :: Clientset where
  "empty_secrets ns nm = Inl ''secret not found''"

definition demo_solver :: gandiDNSProviderSolver where
  "demo_solver = \<lparr>client = Some demo_secrets\<rparr>"

definition old_record :: DomainRecord where
  "old_record =
     \<lparr>RrsetType = ''TXT'', RrsetTTL = 600, RrsetName = ''_acme-challenge'',
      RrsetValues = [''old1'', ''old2'']\<rparr>"

definition www_record :: DomainRecord where
  "www_record =
     \<lparr>RrsetType = ''A'', RrsetTTL = 300, RrsetName = ''www'', RrsetValues = [''192.0.2.1'']\<rparr>"

definition fresh_world :: "rrstore world" where
  "fresh_world = \<lparr>provider = [], trace = []\<rparr>"

definition used_world :: "rrstore world" where
  "used_world =
     \<lparr>provider = [(''example.com'', old_record), (''example.com'', www_record)], trace = []\<rparr>"


section \<open>Splitting the challenge name\<close>

lemma HasSuffix_append: "HasSuffix (p @ z) z"
  by (simp add: HasSuffix_def)

lemma HasSuffix_iff_suffix: "HasSuffix s suf \<longleftrightarrow> suffix suf s"
proof
  assume "HasSuffix s suf"
  then have "s = take (length s - length suf) s @ suf"
    by (metis HasSuffix_def append_take_drop_id)
  then show "suffix suf s"
    by (metis suffixI)
next
  assume "suffix suf s"
  then obtain p where "s = p @ suf"
    by (auto simp: suffix_def)
  then show "HasSuffix s suf"
    by (simp add: HasSuffix_append)
qed

lemma TrimSuffix_append: "TrimSuffix (p @ z) z = p"
  by (simp add: TrimSuffix_def HasSuffix_append)

lemma TrimSuffix_dot:
  "TrimSuffix p ''.'' = (if p \<noteq> [] \<and> last p = CHR ''.'' then butlast p else p)"
proof (cases p rule: rev_cases)
  case Nil
  then show ?thesis
    by (simp add: TrimSuffix_def HasSuffix_def)
next
  case (snoc q x)
  then show ?thesis
    by (simp add: TrimSuffix_def HasSuffix_def)
qed

text \<open>
  C2. When the fully-qualified name \<open>f\<close> ends with the zone \<open>z\<close>, say \<open>f = p @ z\<close>,
  and the zone ends with a dot, \<open>z = d @ ''.''\<close> (so \<open>f\<close> ends with a dot as
  well), the split returns as record name \<open>p\<close> without its one trailing dot, and as
  domain \<open>d\<close>, the zone without its trailing dot.
\<close>

theorem getDomainAndChallengeFQDN_splits:
  assumes "ResolvedFQDN ch = p @ ResolvedZone ch"
    and "ResolvedZone ch = d @ ''.''"
  shows "getDomainAndChallengeFQDN ch =
           (if p \<noteq> [] \<and> last p = CHR ''.'' then butlast p else p, d)"
proof -
  have "TrimSuffix (ResolvedFQDN ch) (ResolvedZone ch) = p"
    using assms(1) by (simp add: TrimSuffix_append)
  moreover have "TrimSuffix (ResolvedZone ch) ''.'' = d"
    using assms(2) by (simp add: TrimSuffix_append)
  ultimately show ?thesis
    by (simp add: getDomainAndChallengeFQDN_def TrimSuffix_dot)
qed

text \<open>
  The example of the specification: \<^verbatim>\<open>_acme-challenge.example.com.\<close> in the zone
  \<^verbatim>\<open>example.com.\<close> gives the record name \<^verbatim>\<open>_acme-challenge\<close> and the domain
  \<^verbatim>\<open>example.com\<close>.
\<close>

theorem getDomainAndChallengeFQDN_splits_witness:
  "ResolvedFQDN \<lparr>ResourceNamespace = ''ns1'', ResolvedZone = ''example.com.'',
       ResolvedFQDN = ''_acme-challenge.example.com.'', Key = ''abc123'', Config = None\<rparr>
     = ''_acme-challenge.'' @ ResolvedZone \<lparr>ResourceNamespace = ''ns1'',
         ResolvedZone = ''example.com.'', ResolvedFQDN = ''_acme-challenge.example.com.'',
         Key = ''abc123'', Config = None\<rparr>
   \<and> ResolvedZone \<lparr>ResourceNamespace = ''ns1'', ResolvedZone = ''example.com.'',
         ResolvedFQDN = ''_acme-challenge.example.com.'', Key = ''abc123'', Config = None\<rparr>
     = ''example.com'' @ ''.''
   \<and> getDomainAndChallengeFQDN \<lparr>ResourceNamespace = ''ns1'', ResolvedZone = ''example.com.'',
         ResolvedFQDN = ''_acme-challenge.example.com.'', Key = ''abc123'', Config = None\<rparr>
     = (''_acme-challenge'', ''example.com'')"
  using getDomainAndChallengeFQDN_splits
    [of "\<lparr>ResourceNamespace = ''ns1'', ResolvedZone = ''example.com.'',
          ResolvedFQDN = ''_acme-challenge.example.com.'', Key = ''abc123'', Config = None\<rparr>"
        "''_acme-challenge.''" "''example.com''"]
  by simp

section \<open>The decimal rendering\<close>

text \<open>
  \<open>FormatNat\<close> writes the decimal numeral of its argument: reading the digits
  back gives the number. So \<open>fmt_d\<close> maps different integers to different texts,
  and the code an error message carries is the code that was returned.
\<close>

lemma FormatNat_small: "n < 10 \<Longrightarrow> FormatNat n = [''0123456789'' ! n]"
  by (subst FormatNat.simps) simp

lemma FormatNat_big:
  "\<not> n < 10 \<Longrightarrow> FormatNat n = FormatNat (n div 10) @ [''0123456789'' ! (n mod 10)]"
  by (subst FormatNat.simps) simp

lemma digit_value:
  fixes k :: nat
  assumes "k < 10"
  shows "of_char (''0123456789'' ! k) - (48::nat) = k"
proof -
  from assms have "k \<in> {0, 1, 2, 3, 4, 5, 6, 7, 8, 9}"
    by auto
  then show ?thesis
    by auto
qed

lemma ParseNat_FormatNat: "ParseNat (FormatNat n) = n"
proof (induction n rule: FormatNat.induct)
  case (1 n)
  show ?case
  proof (cases "n < 10")
    case True
    then show ?thesis
      by (simp add: FormatNat_small ParseNat_def digit_value)
  next
    case False
    with 1 have "ParseNat (FormatNat (n div 10)) = n div 10"
      by simp
    with False show ?thesis
      by (simp add: FormatNat_big ParseNat_def digit_value)
  qed
qed

lemma FormatNat_inj: "FormatNat m = FormatNat n \<Longrightarrow> m = n"
  by (metis ParseNat_FormatNat)

lemma FormatNat_digits: "set (FormatNat n) \<subseteq> set ''0123456789''"
proof (induction n rule: FormatNat.induct)
  case (1 n)
  have digit: "''0123456789'' ! k \<in> set ''0123456789''" if "k < 10" for k :: nat
    using that by (intro nth_mem) simp
  show ?case
  proof (cases "n < 10")
    case True
    with digit[of n] show ?thesis
      by (simp add: FormatNat_small)
  next
    case False
    with 1 have "set (FormatNat (n div 10)) \<subseteq> set ''0123456789''"
      by simp
    moreover have "''0123456789'' ! (n mod 10) \<in> set ''0123456789''"
      by (intro digit) simp
    ultimately show ?thesis
      using False by (simp add: FormatNat_big)
  qed
qed

lemma FormatNat_no_sign: "FormatNat n \<noteq> CHR ''-'' # s"
proof
  assume "FormatNat n = CHR ''-'' # s"
  then have "CHR ''-'' \<in> set (FormatNat n)"
    by simp
  with FormatNat_digits[of n] show False
    by auto
qed

lemma fmt_d_inj: "fmt_d i = fmt_d j \<Longrightarrow> i = j"
proof -
  assume eq: "fmt_d i = fmt_d j"
  consider "i < 0" "j < 0" | "i < 0" "\<not> j < 0" | "\<not> i < 0" "j < 0" | "\<not> i < 0" "\<not> j < 0"
    by blast
  then show "i = j"
  proof cases
    case 1
    with eq have "nat (- i) = nat (- j)"
      by (simp add: fmt_d_def FormatNat_inj)
    with 1 show ?thesis by simp
  next
    case 2
    then have "fmt_d i = CHR ''-'' # FormatNat (nat (- i))" and "fmt_d j = FormatNat (nat j)"
      by (simp_all add: fmt_d_def)
    with eq FormatNat_no_sign show ?thesis
      by metis
  next
    case 3
    then have "fmt_d j = CHR ''-'' # FormatNat (nat (- j))" and "fmt_d i = FormatNat (nat i)"
      by (simp_all add: fmt_d_def)
    with eq FormatNat_no_sign show ?thesis
      by metis
  next
    case 4
    with eq have "nat i = nat j"
      by (simp add: fmt_d_def FormatNat_inj)
    with 4 show ?thesis by simp
  qed
qed

section \<open>Concrete runs of the scenario\<close>

lemma demo_split: "getDomainAndChallengeFQDN demo_request = (''_acme-challenge'', ''example.com'')"
  by (simp add: getDomainAndChallengeFQDN_def demo_request_def TrimSuffix_def HasSuffix_def)

lemma demo_fields:
  "Key demo_request = ''abc123''" "Config demo_request = Some demo_raw"
  "ResourceNamespace demo_request = ''ns1''"
  by (simp_all add: demo_request_def)

lemma store_client_sel:
  "GetDomainRecordByNameAndType store_client = store_Get"
  "UpdateDomainRecordByNameAndType store_client = store_Update"
  "DeleteDomainRecord store_client = store_Delete"
  by (simp_all add: store_client_def)

lemma demo_client:
  "getGandiClient (demo_ext gc) demo_solver (Some demo_raw) ''ns1'' w
     = (Inr gc, w\<lparr>trace := trace w @ [SecretGet ''ns1'' ''gandi-creds'']\<rparr>)"
  by (simp add: getGandiClient_def demo_ext_def demo_solver_def demo_Unmarshal_def
      demo_secrets_def)

text \<open>
  The end-to-end scenario of the specification: on a provider without a record,
  \<open>Present\<close> makes one secret lookup, one read and one update with the values
  \<^verbatim>\<open>abc123\<close> and the TTL 300, and succeeds.
\<close>

lemma demo_fresh_run:
  "Present (demo_ext store_client) demo_solver demo_request fresh_world =
     (None,
      \<lparr>provider = [(''example.com'', \<lparr>RrsetType = ''TXT'', RrsetTTL = 300,
           RrsetName = ''_acme-challenge'', RrsetValues = [''abc123'']\<rparr>)],
       trace = [SecretGet ''ns1'' ''gandi-creds'',
                RecordRead ''example.com'' ''_acme-challenge'' ''TXT''
                  (Inr \<lparr>RrsetType = '''', RrsetTTL = 0, RrsetName = '''', RrsetValues = []\<rparr>),
                RecordUpdate ''example.com'' ''_acme-challenge'' ''TXT'' 300 [''abc123'']]\<rparr>)"
  by (simp add: Present_def demo_client demo_split demo_fields store_client_sel callGet_def
      callUpdate_def store_Get_def store_Update_def fresh_world_def GandiMinTtl_def Let_def)

lemma demo_used_run:
  "Present (demo_ext store_client) demo_solver demo_request used_world =
     (None,
      \<lparr>provider = [(''example.com'', www_record), (''example.com'', \<lparr>RrsetType = ''TXT'', RrsetTTL = 300,
           RrsetName = ''_acme-challenge'', RrsetValues = [''abc123'']\<rparr>)],
       trace = [SecretGet ''ns1'' ''gandi-creds'',
                RecordRead ''example.com'' ''_acme-challenge'' ''TXT'' (Inr old_record),
                RecordUpdate ''example.com'' ''_acme-challenge'' ''TXT'' 300 [''abc123'']]\<rparr>)"
  by (simp add: Present_def demo_client demo_split demo_fields store_client_sel callGet_def
      callUpdate_def store_Get_def store_Update_def used_world_def GandiMinTtl_def Let_def
      at_key_def old_record_def www_record_def)


section \<open>The calls of one invocation\<close>

lemma getGandiClient_provider:
  "provider (snd (getGandiClient ext c cfgJSON ns w)) = provider w"
  by (simp add: getGandiClient_def Let_def split: option.splits sum.splits)

lemma getGandiClient_trace:
  "trace (snd (getGandiClient ext c cfgJSON ns w)) = trace w
   \<or> (\<exists>nm. trace (snd (getGandiClient ext c cfgJSON ns w)) = trace w @ [SecretGet ns nm])"
  by (simp add: getGandiClient_def Let_def split: option.splits sum.splits)

lemma getGandiClient_Inr_world:
  "getGandiClient ext c cfgJSON ns w = (Inr gc, w1)
   \<Longrightarrow> \<exists>nm. w1 = w\<lparr>trace := trace w @ [SecretGet ns nm]\<rparr>"
  by (auto simp add: getGandiClient_def Let_def split: option.splits sum.splits)

lemma Present_after_read:
  assumes "getGandiClient ext c (Config ch) (ResourceNamespace ch) w = (Inr gc, w1)"
    and "getDomainAndChallengeFQDN ch = (n, d)"
    and "GetDomainRecordByNameAndType gc d n ''TXT'' (provider w1) = Inr r"
  shows "snd (Present ext c ch w) =
           \<lparr>provider = snd (UpdateDomainRecordByNameAndType gc d n ''TXT'' GandiMinTtl
                             [Key ch] (provider w1)),
            trace = trace w1 @ [RecordRead d n ''TXT'' (Inr r),
                               RecordUpdate d n ''TXT'' GandiMinTtl [Key ch]]\<rparr>"
  using assms
  by (simp add: Present_def callGet_def callUpdate_def Let_def split: prod.splits sum.splits)

lemma Present_issued_cases:
  assumes "getDomainAndChallengeFQDN ch = (n, d)"
  shows "Present_issued ext c ch w = []
    \<or> (\<exists>nm. Present_issued ext c ch w = [SecretGet (ResourceNamespace ch) nm])
    \<or> (\<exists>nm e. Present_issued ext c ch w =
          [SecretGet (ResourceNamespace ch) nm, RecordRead d n ''TXT'' (Inl e)])
    \<or> (\<exists>nm r. Present_issued ext c ch w =
          [SecretGet (ResourceNamespace ch) nm, RecordRead d n ''TXT'' (Inr r),
           RecordUpdate d n ''TXT'' GandiMinTtl [Key ch]])"
proof (cases "getGandiClient ext c (Config ch) (ResourceNamespace ch) w")
  case (Pair res w1)
  show ?thesis
  proof (cases res)
    case (Inl f)
    with Pair getGandiClient_trace[of ext c "Config ch" "ResourceNamespace ch" w]
    show ?thesis
      by (cases f) (auto simp: Present_issued_def Present_def)
  next
    case (Inr gc)
    with Pair obtain nm
      where w1: "w1 = w\<lparr>trace := trace w @ [SecretGet (ResourceNamespace ch) nm]\<rparr>"
      using getGandiClient_Inr_world by blast
    show ?thesis
    proof (cases "GetDomainRecordByNameAndType gc d n ''TXT'' (provider w1)")
      case (Inl e)
      with Pair \<open>res = Inr gc\<close> assms w1 show ?thesis
        by (simp add: Present_issued_def Present_def callGet_def Let_def)
    next
      case (Inr r)
      with Pair \<open>res = Inr gc\<close> assms have
        "trace (snd (Present ext c ch w)) =
           trace w1 @ [RecordRead d n ''TXT'' (Inr r),
                       RecordUpdate d n ''TXT'' GandiMinTtl [Key ch]]"
        by (simp add: Present_after_read)
      with w1 show ?thesis
        by (simp add: Present_issued_def)
    qed
  qed
qed

lemma CleanUp_after_read:
  assumes "getGandiClient ext c (Config ch) (ResourceNamespace ch) w = (Inr gc, w1)"
    and "getDomainAndChallengeFQDN ch = (n, d)"
    and "GetDomainRecordByNameAndType gc d n ''TXT'' (provider w1) = Inr r"
  shows "CleanUp ext c ch w =
           (if RrsetName r \<noteq> '''' \<and> RrsetValues r \<noteq> []
            then (map_option (\<lambda>err. Err (''unable to remove TXT record: '' @ err))
                    (fst (DeleteDomainRecord gc d n ''TXT'' (provider w1))),
                  \<lparr>provider = snd (DeleteDomainRecord gc d n ''TXT'' (provider w1)),
                   trace = trace w1 @ [RecordRead d n ''TXT'' (Inr r),
                                      RecordDelete d n ''TXT'']\<rparr>)
            else (None, w1\<lparr>trace := trace w1 @ [RecordRead d n ''TXT'' (Inr r)]\<rparr>))"
  using assms
  by (simp add: CleanUp_def callGet_def callDelete_def Let_def
      split: prod.splits sum.splits option.splits)


lemma demo_fresh_issued:
  "Present_issued (demo_ext store_client) demo_solver demo_request fresh_world =
     [SecretGet ''ns1'' ''gandi-creds'',
      RecordRead ''example.com'' ''_acme-challenge'' ''TXT''
        (Inr \<lparr>RrsetType = '''', RrsetTTL = 0, RrsetName = '''', RrsetValues = []\<rparr>),
      RecordUpdate ''example.com'' ''_acme-challenge'' ''TXT'' 300 [''abc123'']]"
  by (simp add: Present_issued_def demo_fresh_run) (simp add: fresh_world_def)

lemma demo_used_issued:
  "Present_issued (demo_ext store_client) demo_solver demo_request used_world =
     [SecretGet ''ns1'' ''gandi-creds'',
      RecordRead ''example.com'' ''_acme-challenge'' ''TXT'' (Inr old_record),
      RecordUpdate ''example.com'' ''_acme-challenge'' ''TXT'' 300 [''abc123'']]"
  by (simp add: Present_issued_def demo_used_run) (simp add: used_world_def)

section \<open>The write of Present\<close>

text \<open>
  C4. Whatever the request, the solver, the libraries and the provider are, every
  update call that one invocation of \<open>Present\<close> issues asks for a TTL of at least 300.
\<close>

theorem Present_ttl_floor:
  assumes "RecordUpdate zn nm ty ttl vs \<in> set (Present_issued ext c ch w)"
  shows "300 \<le> ttl"
proof -
  obtain n d where "getDomainAndChallengeFQDN ch = (n, d)"
    by (cases "getDomainAndChallengeFQDN ch")
  from Present_issued_cases[OF this, of ext c w] assms show ?thesis
    by (auto simp: GandiMinTtl_def)
qed

text \<open>In the scenario the update is issued, with TTL 300.\<close>

theorem Present_ttl_floor_witness:
  "RecordUpdate ''example.com'' ''_acme-challenge'' ''TXT'' 300 [''abc123'']
     \<in> set (Present_issued (demo_ext store_client) demo_solver demo_request fresh_world)
   \<and> (300::int) \<le> 300"
  using Present_ttl_floor[of "''example.com''" "''_acme-challenge''" "''TXT''" 300
      "[''abc123'']" "demo_ext store_client" demo_solver demo_request fresh_world]
  by (simp add: demo_fresh_issued)

section \<open>Failures of the credential resolution\<close>

text \<open>
  C5. A request whose configuration payload is nil makes \<open>Present\<close> and \<open>CleanUp\<close>
  return the error "no configuration provided", wrapped as "unable to get Gandi
  client". The world is returned as it was: no secret is looked up and the provider
  is not called. Nothing is asked of the solver's secret-store client, so the result
  is this error, and no nil dereference, even when that client was never set.
\<close>

theorem absent_config_is_error:
  assumes "Config ch = None"
  shows "Present ext c ch w =
           (Some (Err (''unable to get Gandi client: no configuration provided: ''
                       @ FmtNilJSON ext)), w)
       \<and> CleanUp ext c ch w =
           (Some (Err (''unable to get Gandi client: no configuration provided: ''
                       @ FmtNilJSON ext)), w)
       \<and> Present_issued ext c ch w = [] \<and> CleanUp_issued ext c ch w = []"
  using assms
  by (simp add: Present_def CleanUp_def getGandiClient_def Present_issued_def CleanUp_issued_def)

text \<open>The scenario's request without its configuration, on a solver with no client.\<close>

theorem absent_config_is_error_witness:
  "Config (demo_request\<lparr>Config := None\<rparr>) = None
   \<and> Present (demo_ext store_client) \<lparr>client = None\<rparr> (demo_request\<lparr>Config := None\<rparr>) used_world
       = (Some (Err ''unable to get Gandi client: no configuration provided: <nil>''), used_world)
   \<and> CleanUp (demo_ext store_client) \<lparr>client = None\<rparr> (demo_request\<lparr>Config := None\<rparr>) used_world
       = (Some (Err ''unable to get Gandi client: no configuration provided: <nil>''), used_world)
   \<and> Present_issued (demo_ext store_client) \<lparr>client = None\<rparr>
        (demo_request\<lparr>Config := None\<rparr>) used_world = []
   \<and> CleanUp_issued (demo_ext store_client) \<lparr>client = None\<rparr>
        (demo_request\<lparr>Config := None\<rparr>) used_world = []"
  using absent_config_is_error[of "demo_request\<lparr>Config := None\<rparr>" "demo_ext store_client"
      "\<lparr>client = None\<rparr>" used_world]
  by (simp add: demo_ext_def)

section \<open>Present on the reference provider\<close>

lemma store_Get_total: "\<exists>r. store_Get d n t s = Inr r"
  by (simp add: store_Get_def split: list.splits)

lemma store_Update_at_key:
  "filter (at_key d n t) (snd (store_Update d n t ttl vs s)) =
     [(d, \<lparr>RrsetType = t, RrsetTTL = ttl, RrsetName = n, RrsetValues = vs\<rparr>)]"
  by (simp add: store_Update_def at_key_def)

lemma store_Update_twice:
  "snd (store_Update d n t ttl vs (snd (store_Update d n t ttl vs s))) =
     snd (store_Update d n t ttl vs s)"
  by (simp add: store_Update_def at_key_def)

lemma store_Update_read_back:
  "store_Get d n t (snd (store_Update d n t ttl vs s)) =
     Inr \<lparr>RrsetType = t, RrsetTTL = ttl, RrsetName = n, RrsetValues = vs\<rparr>"
  by (simp add: store_Get_def store_Update_at_key)

lemma Present_on_store:
  assumes "getGandiClient ext c (Config ch) (ResourceNamespace ch) w = (Inr store_client, w1)"
    and "getDomainAndChallengeFQDN ch = (n, d)"
  shows "fst (Present ext c ch w) = None"
    and "provider (snd (Present ext c ch w)) =
           snd (store_Update d n ''TXT'' GandiMinTtl [Key ch] (provider w))"
proof -
  obtain r where r: "store_Get d n ''TXT'' (provider w1) = Inr r"
    using store_Get_total by blast
  have pw: "provider w1 = provider w"
    using getGandiClient_provider[of ext c "Config ch" "ResourceNamespace ch" w] assms(1)
    by simp
  from assms r show "fst (Present ext c ch w) = None"
    by (simp add: Present_def callGet_def callUpdate_def store_client_sel Let_def
        store_Update_def)
  from assms r have "snd (Present ext c ch w) =
      \<lparr>provider = snd (UpdateDomainRecordByNameAndType store_client d n ''TXT'' GandiMinTtl
                        [Key ch] (provider w1)),
       trace = trace w1 @ [RecordRead d n ''TXT'' (Inr r),
                          RecordUpdate d n ''TXT'' GandiMinTtl [Key ch]]\<rparr>"
    by (intro Present_after_read) (simp_all add: store_client_sel)
  with pw show "provider (snd (Present ext c ch w)) =
           snd (store_Update d n ''TXT'' GandiMinTtl [Key ch] (provider w))"
    by (simp add: store_client_sel)
qed

text \<open>
  C1. On the reference provider, for every request whose credentials resolve, every
  starting record store and every earlier trace: \<open>Present\<close> called twice in a row
  with the same request returns no error either time; afterwards the store holds
  exactly one entry at the target (zone, name, TXT), and its values are the one
  challenge key; and the second call leaves the store as the first call left it, so
  no second record appears.
\<close>

theorem Present_twice:
  assumes "\<forall>s. fst (getGandiClient ext c (Config ch) (ResourceNamespace ch) s) = Inr store_client"
    and "getDomainAndChallengeFQDN ch = (n, d)"
  shows "fst (Present ext c ch w) = None
     \<and> fst (Present ext c ch (snd (Present ext c ch w))) = None
     \<and> filter (at_key d n ''TXT'') (provider (snd (Present ext c ch (snd (Present ext c ch w)))))
         = [(d, \<lparr>RrsetType = ''TXT'', RrsetTTL = 300, RrsetName = n, RrsetValues = [Key ch]\<rparr>)]
     \<and> provider (snd (Present ext c ch (snd (Present ext c ch w))))
         = provider (snd (Present ext c ch w))"
proof -
  have res: "\<exists>s1. getGandiClient ext c (Config ch) (ResourceNamespace ch) s = (Inr store_client, s1)"
    for s
    using assms(1) by (metis prod.collapse)
  obtain w1 where w1: "getGandiClient ext c (Config ch) (ResourceNamespace ch) w
      = (Inr store_client, w1)"
    using res by blast
  let ?w' = "snd (Present ext c ch w)"
  obtain w2 where w2: "getGandiClient ext c (Config ch) (ResourceNamespace ch) ?w'
      = (Inr store_client, w2)"
    using res by blast
  note first = Present_on_store[OF w1 assms(2)]
  note second = Present_on_store[OF w2 assms(2)]
  have same: "provider (snd (Present ext c ch ?w')) = provider ?w'"
    using first(2) second(2) by (simp add: store_Update_twice)
  have "filter (at_key d n ''TXT'') (provider ?w')
      = [(d, \<lparr>RrsetType = ''TXT'', RrsetTTL = 300, RrsetName = n, RrsetValues = [Key ch]\<rparr>)]"
    using first(2) by (simp add: store_Update_at_key GandiMinTtl_def)
  with first(1) second(1) same show ?thesis
    by simp
qed

text \<open>
  The scenario's request on a store that already holds two other values at the
  challenge name and a record at another name.
\<close>

theorem Present_twice_witness:
  "(\<forall>s. fst (getGandiClient (demo_ext store_client) demo_solver (Config demo_request)
            (ResourceNamespace demo_request) s) = Inr store_client)
   \<and> getDomainAndChallengeFQDN demo_request = (''_acme-challenge'', ''example.com'')
   \<and> fst (Present (demo_ext store_client) demo_solver demo_request used_world) = None
   \<and> fst (Present (demo_ext store_client) demo_solver demo_request
            (snd (Present (demo_ext store_client) demo_solver demo_request used_world))) = None
   \<and> filter (at_key ''example.com'' ''_acme-challenge'' ''TXT'')
        (provider (snd (Present (demo_ext store_client) demo_solver demo_request
            (snd (Present (demo_ext store_client) demo_solver demo_request used_world)))))
       = [(''example.com'', \<lparr>RrsetType = ''TXT'', RrsetTTL = 300,
            RrsetName = ''_acme-challenge'', RrsetValues = [''abc123'']\<rparr>)]
   \<and> provider (snd (Present (demo_ext store_client) demo_solver demo_request
            (snd (Present (demo_ext store_client) demo_solver demo_request used_world))))
       = [(''example.com'', www_record),
          (''example.com'', \<lparr>RrsetType = ''TXT'', RrsetTTL = 300,
            RrsetName = ''_acme-challenge'', RrsetValues = [''abc123'']\<rparr>)]"
proof -
  have creds: "\<forall>s. fst (getGandiClient (demo_ext store_client) demo_solver (Config demo_request)
            (ResourceNamespace demo_request) s) = Inr store_client"
    by (simp add: demo_fields demo_client)
  from Present_twice[OF creds demo_split, of used_world] creds demo_split show ?thesis
    by (simp add: demo_used_run demo_fields at_key_def www_record_def)
qed

section \<open>One write for both branches\<close>

lemma Present_issued_after_read:
  assumes "getGandiClient ext c (Config ch) (ResourceNamespace ch) w = (Inr gc, w1)"
    and "getDomainAndChallengeFQDN ch = (n, d)"
    and "GetDomainRecordByNameAndType gc d n ''TXT'' (provider w1) = Inr r"
  shows "filter is_mutation (Present_issued ext c ch w) =
           [RecordUpdate d n ''TXT'' GandiMinTtl [Key ch]]"
proof -
  obtain nm where w1: "w1 = w\<lparr>trace := trace w @ [SecretGet (ResourceNamespace ch) nm]\<rparr>"
    using assms(1) getGandiClient_Inr_world by blast
  have "trace (snd (Present ext c ch w)) =
      trace w1 @ [RecordRead d n ''TXT'' (Inr r), RecordUpdate d n ''TXT'' GandiMinTtl [Key ch]]"
    using Present_after_read[OF assms] by simp
  with w1 show ?thesis
    by (simp add: Present_issued_def)
qed

lemma Present_provider_after_read:
  assumes "getGandiClient ext c (Config ch) (ResourceNamespace ch) w = (Inr gc, w1)"
    and "getDomainAndChallengeFQDN ch = (n, d)"
    and "GetDomainRecordByNameAndType gc d n ''TXT'' (provider w1) = Inr r"
  shows "provider (snd (Present ext c ch w)) =
           snd (UpdateDomainRecordByNameAndType gc d n ''TXT'' GandiMinTtl [Key ch] (provider w))"
proof -
  have "provider w1 = provider w"
    using getGandiClient_provider[of ext c "Config ch" "ResourceNamespace ch" w] assms(1)
    by simp
  with Present_after_read[OF assms] show ?thesis
    by simp
qed

text \<open>
  C9. Take one request and two invocations of \<open>Present\<close> on it, in any two
  environments: one in which the read returns a record with a name and at least one
  value (the branch "record found"), one in which it returns a record without a name
  or without values (the branch "record not found"). Both invocations issue exactly
  one provider write, and it is the same call: the update of (domain, record name,
  TXT) with the TTL \<open>GandiMinTtl\<close> and the one-element value list of the challenge key.
  In both the provider state that results is the one this update method returns.
\<close>

theorem Present_branches_issue_same_call:
  assumes "getDomainAndChallengeFQDN ch = (n, d)"
    and "getGandiClient ext c (Config ch) (ResourceNamespace ch) w = (Inr gc, w1)"
    and "GetDomainRecordByNameAndType gc d n ''TXT'' (provider w1) = Inr r"
    and "RrsetName r \<noteq> '''' \<and> length (RrsetValues r) > 0"
    and "getGandiClient ext' c' (Config ch) (ResourceNamespace ch) w' = (Inr gc', w1')"
    and "GetDomainRecordByNameAndType gc' d n ''TXT'' (provider w1') = Inr r'"
    and "\<not> (RrsetName r' \<noteq> '''' \<and> length (RrsetValues r') > 0)"
  shows "filter is_mutation (Present_issued ext c ch w)
           = [RecordUpdate d n ''TXT'' GandiMinTtl [Key ch]]
     \<and> filter is_mutation (Present_issued ext' c' ch w')
           = [RecordUpdate d n ''TXT'' GandiMinTtl [Key ch]]
     \<and> provider (snd (Present ext c ch w))
           = snd (UpdateDomainRecordByNameAndType gc d n ''TXT'' GandiMinTtl [Key ch] (provider w))
     \<and> provider (snd (Present ext' c' ch w'))
           = snd (UpdateDomainRecordByNameAndType gc' d n ''TXT'' GandiMinTtl [Key ch] (provider w'))"
  using Present_issued_after_read[OF assms(2) assms(1) assms(3)]
    Present_issued_after_read[OF assms(5) assms(1) assms(6)]
    Present_provider_after_read[OF assms(2) assms(1) assms(3)]
    Present_provider_after_read[OF assms(5) assms(1) assms(6)]
  by simp

lemma demo_client_fields:
  "getGandiClient (demo_ext gc) demo_solver (Config demo_request) (ResourceNamespace demo_request) w
     = (Inr gc, w\<lparr>trace := trace w @ [SecretGet ''ns1'' ''gandi-creds'']\<rparr>)"
  by (simp add: demo_fields demo_client)

lemma used_world_read:
  "store_Get ''example.com'' ''_acme-challenge'' ''TXT'' (provider used_world) = Inr old_record"
  by (simp add: store_Get_def used_world_def at_key_def old_record_def www_record_def)

lemma fresh_world_read:
  "store_Get ''example.com'' ''_acme-challenge'' ''TXT'' (provider fresh_world)
     = Inr \<lparr>RrsetType = '''', RrsetTTL = 0, RrsetName = '''', RrsetValues = []\<rparr>"
  by (simp add: store_Get_def fresh_world_def)

text \<open>
  The scenario's request on the store that holds a record at the challenge name
  (found) and on the empty store (not found).
\<close>

theorem Present_branches_issue_same_call_witness:
  "getDomainAndChallengeFQDN demo_request = (''_acme-challenge'', ''example.com'')
   \<and> getGandiClient (demo_ext store_client) demo_solver (Config demo_request)
        (ResourceNamespace demo_request) used_world
       = (Inr store_client, used_world\<lparr>trace := [SecretGet ''ns1'' ''gandi-creds'']\<rparr>)
   \<and> GetDomainRecordByNameAndType store_client ''example.com'' ''_acme-challenge'' ''TXT''
        (provider (used_world\<lparr>trace := [SecretGet ''ns1'' ''gandi-creds'']\<rparr>)) = Inr old_record
   \<and> RrsetName old_record \<noteq> '''' \<and> length (RrsetValues old_record) > 0
   \<and> getGandiClient (demo_ext store_client) demo_solver (Config demo_request)
        (ResourceNamespace demo_request) fresh_world
       = (Inr store_client, fresh_world\<lparr>trace := [SecretGet ''ns1'' ''gandi-creds'']\<rparr>)
   \<and> GetDomainRecordByNameAndType store_client ''example.com'' ''_acme-challenge'' ''TXT''
        (provider (fresh_world\<lparr>trace := [SecretGet ''ns1'' ''gandi-creds'']\<rparr>))
       = Inr \<lparr>RrsetType = '''', RrsetTTL = 0, RrsetName = '''', RrsetValues = []\<rparr>
   \<and> \<not> (RrsetName \<lparr>RrsetType = '''', RrsetTTL = 0, RrsetName = '''', RrsetValues = []\<rparr> \<noteq> ''''
         \<and> length (RrsetValues \<lparr>RrsetType = '''', RrsetTTL = 0, RrsetName = '''',
                                  RrsetValues = []\<rparr>) > 0)
   \<and> filter is_mutation (Present_issued (demo_ext store_client) demo_solver demo_request used_world)
       = [RecordUpdate ''example.com'' ''_acme-challenge'' ''TXT'' 300 [''abc123'']]
   \<and> filter is_mutation (Present_issued (demo_ext store_client) demo_solver demo_request fresh_world)
       = [RecordUpdate ''example.com'' ''_acme-challenge'' ''TXT'' 300 [''abc123'']]"
proof -
  have a: "getGandiClient (demo_ext store_client) demo_solver (Config demo_request)
        (ResourceNamespace demo_request) used_world
       = (Inr store_client, used_world\<lparr>trace := [SecretGet ''ns1'' ''gandi-creds'']\<rparr>)"
    by (simp add: demo_client_fields) (simp add: used_world_def)
  have b: "GetDomainRecordByNameAndType store_client ''example.com'' ''_acme-challenge'' ''TXT''
        (provider (used_world\<lparr>trace := [SecretGet ''ns1'' ''gandi-creds'']\<rparr>)) = Inr old_record"
    by (simp add: store_client_sel used_world_read)
  have c: "RrsetName old_record \<noteq> '''' \<and> length (RrsetValues old_record) > 0"
    by (simp add: old_record_def)
  have a': "getGandiClient (demo_ext store_client) demo_solver (Config demo_request)
        (ResourceNamespace demo_request) fresh_world
       = (Inr store_client, fresh_world\<lparr>trace := [SecretGet ''ns1'' ''gandi-creds'']\<rparr>)"
    by (simp add: demo_client_fields) (simp add: fresh_world_def)
  have b': "GetDomainRecordByNameAndType store_client ''example.com'' ''_acme-challenge'' ''TXT''
        (provider (fresh_world\<lparr>trace := [SecretGet ''ns1'' ''gandi-creds'']\<rparr>))
       = Inr \<lparr>RrsetType = '''', RrsetTTL = 0, RrsetName = '''', RrsetValues = []\<rparr>"
    by (simp add: store_client_sel fresh_world_read)
  have c': "\<not> (RrsetName \<lparr>RrsetType = '''', RrsetTTL = 0, RrsetName = '''', RrsetValues = []\<rparr> \<noteq> ''''
         \<and> length (RrsetValues \<lparr>RrsetType = '''', RrsetTTL = 0, RrsetName = '''',
                                  RrsetValues = []\<rparr>) > 0)"
    by simp
  from Present_branches_issue_same_call[OF demo_split a b c a' b' c'] a b c a' b' demo_split
  show ?thesis
    by (simp add: demo_fields GandiMinTtl_def)
qed

section \<open>The values of the write\<close>

text \<open>
  C10. The value list of every update that \<open>Present\<close> issues is the one-element
  list of the request's challenge key: the values the read returned are not sent
  along. On the reference provider the update replaces the value set, so after
  \<open>Present\<close> the record at the target name holds the challenge key alone, whatever
  values it held before.
\<close>

theorem Present_writes_only_the_key:
  "(RecordUpdate zn nm ty ttl vs \<in> set (Present_issued ext c ch w) \<longrightarrow> vs = [Key ch])
   \<and> (getGandiClient ext' c' (Config ch) (ResourceNamespace ch) s = (Inr store_client, s1)
        \<and> getDomainAndChallengeFQDN ch = (n, d)
       \<longrightarrow> store_Get d n ''TXT'' (provider (snd (Present ext' c' ch s)))
             = Inr \<lparr>RrsetType = ''TXT'', RrsetTTL = 300, RrsetName = n,
                    RrsetValues = [Key ch]\<rparr>)"
proof (intro conjI impI)
  assume sent: "RecordUpdate zn nm ty ttl vs \<in> set (Present_issued ext c ch w)"
  obtain n0 d0 where "getDomainAndChallengeFQDN ch = (n0, d0)"
    by (cases "getDomainAndChallengeFQDN ch")
  from Present_issued_cases[OF this, of ext c w] sent show "vs = [Key ch]"
    by auto
next
  assume "getGandiClient ext' c' (Config ch) (ResourceNamespace ch) s = (Inr store_client, s1)
        \<and> getDomainAndChallengeFQDN ch = (n, d)"
  then have "provider (snd (Present ext' c' ch s)) =
           snd (store_Update d n ''TXT'' GandiMinTtl [Key ch] (provider s))"
    using Present_on_store(2) by blast
  then show "store_Get d n ''TXT'' (provider (snd (Present ext' c' ch s)))
             = Inr \<lparr>RrsetType = ''TXT'', RrsetTTL = 300, RrsetName = n,
                    RrsetValues = [Key ch]\<rparr>"
    by (simp add: store_Update_read_back GandiMinTtl_def)
qed

text \<open>
  The scenario's request on the store whose record at the challenge name holds the
  values \<^verbatim>\<open>old1\<close> and \<^verbatim>\<open>old2\<close>: the update carries \<^verbatim>\<open>abc123\<close> alone, and
  the record then reads back with \<^verbatim>\<open>abc123\<close> alone.
\<close>

theorem Present_writes_only_the_key_witness:
  "RecordUpdate ''example.com'' ''_acme-challenge'' ''TXT'' 300 [''abc123'']
     \<in> set (Present_issued (demo_ext store_client) demo_solver demo_request used_world)
   \<and> [''abc123''] = [Key demo_request]
   \<and> store_Get ''example.com'' ''_acme-challenge'' ''TXT'' (provider used_world)
       = Inr \<lparr>RrsetType = ''TXT'', RrsetTTL = 600, RrsetName = ''_acme-challenge'',
              RrsetValues = [''old1'', ''old2'']\<rparr>
   \<and> getGandiClient (demo_ext store_client) demo_solver (Config demo_request)
        (ResourceNamespace demo_request) used_world
       = (Inr store_client, used_world\<lparr>trace := [SecretGet ''ns1'' ''gandi-creds'']\<rparr>)
   \<and> getDomainAndChallengeFQDN demo_request = (''_acme-challenge'', ''example.com'')
   \<and> store_Get ''example.com'' ''_acme-challenge'' ''TXT''
        (provider (snd (Present (demo_ext store_client) demo_solver demo_request used_world)))
       = Inr \<lparr>RrsetType = ''TXT'', RrsetTTL = 300, RrsetName = ''_acme-challenge'',
              RrsetValues = [''abc123'']\<rparr>"
proof -
  have a: "getGandiClient (demo_ext store_client) demo_solver (Config demo_request)
        (ResourceNamespace demo_request) used_world
       = (Inr store_client, used_world\<lparr>trace := [SecretGet ''ns1'' ''gandi-creds'']\<rparr>)"
    by (simp add: demo_client_fields) (simp add: used_world_def)
  from Present_writes_only_the_key[of "''example.com''" "''_acme-challenge''" "''TXT''" 300
      "[''abc123'']" "demo_ext store_client" demo_solver demo_request used_world
      "demo_ext store_client" demo_solver used_world
      "used_world\<lparr>trace := [SecretGet ''ns1'' ''gandi-creds'']\<rparr>"
      "''_acme-challenge''" "''example.com''"] a demo_split
  show ?thesis
    by (simp add: demo_used_issued demo_fields used_world_read old_record_def)
qed

section \<open>CleanUp\<close>

text \<open>
  C3. Let the credentials resolve and the read of (domain, record name, TXT) return
  a record \<open>r\<close>. If \<open>r\<close> has no name or no values, \<open>CleanUp\<close> returns success,
  the read is the last call it makes, and it issues no delete. If \<open>r\<close> has a name
  and at least one value, \<open>CleanUp\<close> issues exactly one mutation, the delete of the
  record set at (domain, record name, TXT); the provider state is the one that
  delete returns and the result is the delete's error, if any. No condition is put
  on the challenge key: the delete is issued whether or not the key is among the
  values of \<open>r\<close>.
\<close>

theorem CleanUp_contract:
  assumes "getGandiClient ext c (Config ch) (ResourceNamespace ch) w = (Inr gc, w1)"
    and "getDomainAndChallengeFQDN ch = (n, d)"
    and "GetDomainRecordByNameAndType gc d n ''TXT'' (provider w1) = Inr r"
  shows "(RrsetName r = '''' \<or> RrsetValues r = [] \<longrightarrow>
            CleanUp ext c ch w = (None, w1\<lparr>trace := trace w1 @ [RecordRead d n ''TXT'' (Inr r)]\<rparr>)
            \<and> filter is_mutation (CleanUp_issued ext c ch w) = [])
       \<and> (RrsetName r \<noteq> '''' \<and> RrsetValues r \<noteq> [] \<longrightarrow>
            filter is_mutation (CleanUp_issued ext c ch w) = [RecordDelete d n ''TXT'']
            \<and> provider (snd (CleanUp ext c ch w))
                = snd (DeleteDomainRecord gc d n ''TXT'' (provider w))
            \<and> fst (CleanUp ext c ch w)
                = map_option (\<lambda>err. Err (''unable to remove TXT record: '' @ err))
                    (fst (DeleteDomainRecord gc d n ''TXT'' (provider w))))"
proof -
  obtain nm where w1: "w1 = w\<lparr>trace := trace w @ [SecretGet (ResourceNamespace ch) nm]\<rparr>"
    using assms(1) getGandiClient_Inr_world by blast
  show ?thesis
    using CleanUp_after_read[OF assms] w1
    by (auto simp: CleanUp_issued_def)
qed

text \<open>
  The scenario's request on the empty store (nothing to delete) and on the store whose
  record at the challenge name holds two values, neither of them the challenge key
  (the whole record set is deleted).
\<close>

theorem CleanUp_contract_witness:
  "getDomainAndChallengeFQDN demo_request = (''_acme-challenge'', ''example.com'')
   \<and> getGandiClient (demo_ext store_client) demo_solver (Config demo_request)
        (ResourceNamespace demo_request) fresh_world
       = (Inr store_client, fresh_world\<lparr>trace := [SecretGet ''ns1'' ''gandi-creds'']\<rparr>)
   \<and> GetDomainRecordByNameAndType store_client ''example.com'' ''_acme-challenge'' ''TXT''
        (provider (fresh_world\<lparr>trace := [SecretGet ''ns1'' ''gandi-creds'']\<rparr>))
       = Inr \<lparr>RrsetType = '''', RrsetTTL = 0, RrsetName = '''', RrsetValues = []\<rparr>
   \<and> RrsetName \<lparr>RrsetType = '''', RrsetTTL = 0, RrsetName = '''', RrsetValues = []\<rparr> = ''''
   \<and> fst (CleanUp (demo_ext store_client) demo_solver demo_request fresh_world) = None
   \<and> filter is_mutation
        (CleanUp_issued (demo_ext store_client) demo_solver demo_request fresh_world) = []
   \<and> getGandiClient (demo_ext store_client) demo_solver (Config demo_request)
        (ResourceNamespace demo_request) used_world
       = (Inr store_client, used_world\<lparr>trace := [SecretGet ''ns1'' ''gandi-creds'']\<rparr>)
   \<and> GetDomainRecordByNameAndType store_client ''example.com'' ''_acme-challenge'' ''TXT''
        (provider (used_world\<lparr>trace := [SecretGet ''ns1'' ''gandi-creds'']\<rparr>)) = Inr old_record
   \<and> RrsetName old_record \<noteq> '''' \<and> RrsetValues old_record \<noteq> []
   \<and> Key demo_request \<notin> set (RrsetValues old_record)
   \<and> filter is_mutation
        (CleanUp_issued (demo_ext store_client) demo_solver demo_request used_world)
       = [RecordDelete ''example.com'' ''_acme-challenge'' ''TXT'']
   \<and> provider (snd (CleanUp (demo_ext store_client) demo_solver demo_request used_world))
       = [(''example.com'', www_record)]
   \<and> fst (CleanUp (demo_ext store_client) demo_solver demo_request used_world) = None"
proof -
  have a: "getGandiClient (demo_ext store_client) demo_solver (Config demo_request)
        (ResourceNamespace demo_request) fresh_world
       = (Inr store_client, fresh_world\<lparr>trace := [SecretGet ''ns1'' ''gandi-creds'']\<rparr>)"
    by (simp add: demo_client_fields) (simp add: fresh_world_def)
  have b: "GetDomainRecordByNameAndType store_client ''example.com'' ''_acme-challenge'' ''TXT''
        (provider (fresh_world\<lparr>trace := [SecretGet ''ns1'' ''gandi-creds'']\<rparr>))
       = Inr \<lparr>RrsetType = '''', RrsetTTL = 0, RrsetName = '''', RrsetValues = []\<rparr>"
    by (simp add: store_client_sel fresh_world_read)
  have a': "getGandiClient (demo_ext store_client) demo_solver (Config demo_request)
        (ResourceNamespace demo_request) used_world
       = (Inr store_client, used_world\<lparr>trace := [SecretGet ''ns1'' ''gandi-creds'']\<rparr>)"
    by (simp add: demo_client_fields) (simp add: used_world_def)
  have b': "GetDomainRecordByNameAndType store_client ''example.com'' ''_acme-challenge'' ''TXT''
        (provider (used_world\<lparr>trace := [SecretGet ''ns1'' ''gandi-creds'']\<rparr>)) = Inr old_record"
    by (simp add: store_client_sel used_world_read)
  have c': "RrsetName old_record \<noteq> '''' \<and> RrsetValues old_record \<noteq> []
      \<and> Key demo_request \<notin> set (RrsetValues old_record)"
    by (simp add: old_record_def demo_fields)
  have del: "snd (DeleteDomainRecord store_client ''example.com'' ''_acme-challenge'' ''TXT''
      (provider used_world)) = [(''example.com'', www_record)]"
    by (simp add: store_client_sel store_Delete_def used_world_def at_key_def old_record_def
        www_record_def)
  have del': "fst (DeleteDomainRecord store_client ''example.com'' ''_acme-challenge'' ''TXT''
      (provider used_world)) = None"
    by (simp add: store_client_sel store_Delete_def)
  from CleanUp_contract[OF a demo_split b] CleanUp_contract[OF a' demo_split b']
    a b a' b' c' del del' demo_split
  show ?thesis
    by simp
qed

section \<open>A refused write\<close>




section \<open>A secret without the configured key\<close>

text \<open>
  C7. When the configuration decodes, the secret is found and its data has no entry
  for the configured key, the credential resolution fails with the message "key",
  the quoted key, "not found in secret" and the secret's name and namespace. A
  resolution in which the secret-store call itself fails (the secret is missing, or
  the call breaks) fails with the message "unable to get secret", the name and the
  store's error. The two errors are never equal, whatever the requests and the
  environments of the two resolutions are, and they stay different in what
  \<open>Present\<close> and \<open>CleanUp\<close> return.
\<close>

theorem missing_key_error_is_distinct:
  assumes "Config ch = Some raw" and "Unmarshal ext raw = Inr cfg"
    and "client c = Some cs"
    and "cs (ResourceNamespace ch) (PATSecretRef_Name cfg) = Inr secData"
    and "secData (PATSecretRef_Key cfg) = None"
    and "Config ch' = Some raw'" and "Unmarshal ext' raw' = Inr cfg'"
    and "client c' = Some cs'"
    and "cs' (ResourceNamespace ch') (PATSecretRef_Name cfg') = Inl e"
  shows "fst (getGandiClient ext c (Config ch) (ResourceNamespace ch) w) =
           Inl (Err (''key '' @ Quote ext (PATSecretRef_Key cfg) @ '' not found in secret ''
                     @ dquote @ PATSecretRef_Name cfg @ ''/'' @ ResourceNamespace ch @ dquote))
     \<and> fst (getGandiClient ext' c' (Config ch') (ResourceNamespace ch') w') =
           Inl (Err (''unable to get secret '' @ backquote @ PATSecretRef_Name cfg'
                     @ backquote @ ''; '' @ e))
     \<and> fst (getGandiClient ext c (Config ch) (ResourceNamespace ch) w)
           \<noteq> fst (getGandiClient ext' c' (Config ch') (ResourceNamespace ch') w')
     \<and> fst (Present ext c ch w) =
           Some (Err (''unable to get Gandi client: key '' @ Quote ext (PATSecretRef_Key cfg)
                     @ '' not found in secret '' @ dquote @ PATSecretRef_Name cfg @ ''/''
                     @ ResourceNamespace ch @ dquote))
     \<and> fst (Present ext c ch w) \<noteq> fst (Present ext' c' ch' w')
     \<and> fst (CleanUp ext c ch w) \<noteq> fst (CleanUp ext' c' ch' w')"
proof -
  have a: "getGandiClient ext c (Config ch) (ResourceNamespace ch) w =
      (Inl (Err (''key '' @ Quote ext (PATSecretRef_Key cfg) @ '' not found in secret ''
                     @ dquote @ PATSecretRef_Name cfg @ ''/'' @ ResourceNamespace ch @ dquote)),
       w\<lparr>trace := trace w @ [SecretGet (ResourceNamespace ch) (PATSecretRef_Name cfg)]\<rparr>)"
    using assms(1-5) by (simp add: getGandiClient_def Let_def)
  have b: "getGandiClient ext' c' (Config ch') (ResourceNamespace ch') w' =
      (Inl (Err (''unable to get secret '' @ backquote @ PATSecretRef_Name cfg'
                     @ backquote @ ''; '' @ e)),
       w'\<lparr>trace := trace w' @ [SecretGet (ResourceNamespace ch') (PATSecretRef_Name cfg')]\<rparr>)"
    using assms(6-9) by (simp add: getGandiClient_def Let_def)
  show ?thesis
    by (simp add: a b Present_def CleanUp_def)
qed

text \<open>
  The scenario's request against a store whose secret lacks the key \<^verbatim>\<open>token\<close>, and
  against a store that has no secret at all.
\<close>

theorem missing_key_error_is_distinct_witness:
  "Config demo_request = Some demo_raw
   \<and> Unmarshal (demo_ext store_client) demo_raw
       = Inr \<lparr>PATSecretRef_Name = ''gandi-creds'', PATSecretRef_Key = ''token''\<rparr>
   \<and> client \<lparr>client = Some keyless_secrets\<rparr> = Some keyless_secrets
   \<and> keyless_secrets (ResourceNamespace demo_request) ''gandi-creds''
       = Inr [''other'' \<mapsto> ''pat-0000'']
   \<and> [''other'' \<mapsto> ''pat-0000''] ''token'' = None
   \<and> client \<lparr>client = Some empty_secrets\<rparr> = Some empty_secrets
   \<and> empty_secrets (ResourceNamespace demo_request) ''gandi-creds'' = Inl ''secret not found''
   \<and> fst (Present (demo_ext store_client) \<lparr>client = Some keyless_secrets\<rparr> demo_request
            fresh_world)
       = Some (Err (''unable to get Gandi client: key '' @ dquote @ ''token'' @ dquote
                    @ '' not found in secret '' @ dquote @ ''gandi-creds/ns1'' @ dquote))
   \<and> fst (Present (demo_ext store_client) \<lparr>client = Some empty_secrets\<rparr> demo_request
            fresh_world)
       = Some (Err (''unable to get Gandi client: unable to get secret '' @ backquote
                    @ ''gandi-creds'' @ backquote @ ''; secret not found''))
   \<and> fst (Present (demo_ext store_client) \<lparr>client = Some keyless_secrets\<rparr> demo_request
            fresh_world)
       \<noteq> fst (Present (demo_ext store_client) \<lparr>client = Some empty_secrets\<rparr> demo_request
            fresh_world)"
proof -
  have u: "Unmarshal (demo_ext store_client) demo_raw
       = Inr \<lparr>PATSecretRef_Name = ''gandi-creds'', PATSecretRef_Key = ''token''\<rparr>"
    by (simp add: demo_ext_def demo_Unmarshal_def)
  have q: "Quote (demo_ext store_client) ''token'' = dquote @ ''token'' @ dquote"
    by (simp add: demo_ext_def)
  have k: "keyless_secrets (ResourceNamespace demo_request)
        (PATSecretRef_Name \<lparr>PATSecretRef_Name = ''gandi-creds'', PATSecretRef_Key = ''token''\<rparr>)
       = Inr [''other'' \<mapsto> ''pat-0000'']"
    by (simp add: keyless_secrets_def demo_fields)
  have m: "[''other'' \<mapsto> ''pat-0000'']
        (PATSecretRef_Key \<lparr>PATSecretRef_Name = ''gandi-creds'', PATSecretRef_Key = ''token''\<rparr>)
       = None"
    by simp
  have l: "empty_secrets (ResourceNamespace demo_request)
        (PATSecretRef_Name \<lparr>PATSecretRef_Name = ''gandi-creds'', PATSecretRef_Key = ''token''\<rparr>)
       = Inl ''secret not found''"
    by (simp add: empty_secrets_def)
  have p: "fst (Present (demo_ext store_client) \<lparr>client = Some empty_secrets\<rparr> demo_request
            fresh_world)
       = Some (Err (''unable to get Gandi client: unable to get secret '' @ backquote
                    @ ''gandi-creds'' @ backquote @ ''; secret not found''))"
    by (simp add: Present_def getGandiClient_def demo_fields u empty_secrets_def Let_def)
  from missing_key_error_is_distinct[of demo_request demo_raw "demo_ext store_client"
      "\<lparr>PATSecretRef_Name = ''gandi-creds'', PATSecretRef_Key = ''token''\<rparr>"
      "\<lparr>client = Some keyless_secrets\<rparr>" keyless_secrets "[''other'' \<mapsto> ''pat-0000'']"
      demo_request demo_raw "demo_ext store_client"
      "\<lparr>PATSecretRef_Name = ''gandi-creds'', PATSecretRef_Key = ''token''\<rparr>"
      "\<lparr>client = Some empty_secrets\<rparr>" empty_secrets "''secret not found''"
      fresh_world fresh_world, OF demo_fields(2) u _ k m demo_fields(2) u _ l]
    u k m l p q
  show ?thesis
    by (simp add: demo_fields)
qed

section \<open>Reads before mutations\<close>










end
